theory Spec2Isabelle
  imports Complex_Main "HOL-Library.Word"
begin

section \<open>The gradient-descent demo (demos/GradientDescent.cpp)\<close>

text \<open>
  The demo fits the two parameters of \<open>f(theta_0, theta_1, x) = theta_0 + theta_1 * x\<close>
  to a generated data set by batch gradient descent. The gradient of the cost function
  comes from Clad (\<open>clad::gradient(cost)\<close>), which is not part of the file: it is a
  parameter of \<open>performStep\<close> in the source (the template argument \<open>T clad_grad\<close>) and
  a parameter of the model.

  Numbers. The functions of the optimizer (\<open>f\<close>, \<open>cost\<close>, \<open>performStep\<close>,
  \<open>optimize\<close>) are written once, over any type \<open>'a\<close> that has the operators the
  source uses on \<open>double\<close> (\<open>0\<close>, \<open>+\<close>, \<open>-\<close>, \<open>*\<close>, \<open>/\<close>, \<open>abs\<close>,
  \<open>\<le>\<close>); the sort constraint names the operators only and assumes no law about
  them. The implicit conversion of \<open>2 * dt.size\<close> from \<open>size_t\<close> to \<open>double\<close> is
  the parameter \<open>of_size\<close>. What is proved at type \<open>'a\<close> therefore holds for every
  reading of the arithmetic, rounding included.

  Where a statement needs numbers, the type \<open>double\<close> below is used: the finite values
  are the real numbers, with the two infinities and NaN beside them, and the operators
  follow IEEE 754 on the special values: a division by zero gives an infinity, or NaN
  for \<open>0/0\<close>, and every comparison with NaN is false. Rounding, overflow of finite
  results and the sign of zero are not modelled.
\<close>

subsection \<open>Failures\<close>

text \<open>
  The source has no exceptions. Two of its operations have no defined result:
  \<open>operator[]\<close> of \<open>std::vector\<close> outside the vector, and \<open>currentStep++\<close> on an
  \<open>int\<close> that holds \<open>INT_MAX\<close>. Both are outcomes of the model.
\<close>

datatype error = OutOfRange | SignedOverflow

subsection \<open>The type double\<close>

datatype double = Finite real | PInf | MInf | NaN

text \<open>
  The conversion of a \<open>double\<close> to \<open>int\<close> truncates towards zero. For NaN, an
  infinity or a value whose truncation is not an \<open>int\<close> the language defines no
  result; the model gives what the conversion instruction of x86-64 gives, \<open>INT_MIN\<close>.
\<close>

definition int_of_double :: "double \<Rightarrow> int" where
  "int_of_double x =
     (case x of
        Finite a \<Rightarrow>
          if - 2147483649 < a \<and> a < 2147483648 then (if 0 \<le> a then \<lfloor>a\<rfloor> else \<lceil>a\<rceil>)
          else - 2147483648
      | _ \<Rightarrow> - 2147483648)"

text \<open>
  \<open>int abs(int)\<close> of the C library. \<open>abs(INT_MIN)\<close> has no defined result either; as
  compiled, the negation wraps and gives \<open>INT_MIN\<close> again.
\<close>

definition abs_int :: "int \<Rightarrow> int" where
  "abs_int i = (if i = - 2147483648 then - 2147483648 else \<bar>i\<bar>)"

instantiation double :: "{zero,plus,uminus,minus,times,inverse,abs,ord}"
begin

definition zero_double :: double where
  "zero_double = Finite 0"

fun plus_double :: "double \<Rightarrow> double \<Rightarrow> double" where
  "plus_double NaN _ = NaN"
| "plus_double _ NaN = NaN"
| "plus_double (Finite a) (Finite b) = Finite (a + b)"
| "plus_double PInf MInf = NaN"
| "plus_double MInf PInf = NaN"
| "plus_double PInf _ = PInf"
| "plus_double _ PInf = PInf"
| "plus_double MInf _ = MInf"
| "plus_double _ MInf = MInf"

fun uminus_double :: "double \<Rightarrow> double" where
  "uminus_double (Finite a) = Finite (- a)"
| "uminus_double PInf = MInf"
| "uminus_double MInf = PInf"
| "uminus_double NaN = NaN"

definition minus_double :: "double \<Rightarrow> double \<Rightarrow> double" where
  "minus_double a b = a + (- b)"

fun times_double :: "double \<Rightarrow> double \<Rightarrow> double" where
  "times_double NaN _ = NaN"
| "times_double _ NaN = NaN"
| "times_double (Finite a) (Finite b) = Finite (a * b)"
| "times_double (Finite a) PInf = (if a = 0 then NaN else if 0 < a then PInf else MInf)"
| "times_double (Finite a) MInf = (if a = 0 then NaN else if 0 < a then MInf else PInf)"
| "times_double PInf (Finite b) = (if b = 0 then NaN else if 0 < b then PInf else MInf)"
| "times_double MInf (Finite b) = (if b = 0 then NaN else if 0 < b then MInf else PInf)"
| "times_double PInf PInf = PInf"
| "times_double PInf MInf = MInf"
| "times_double MInf PInf = MInf"
| "times_double MInf MInf = PInf"

fun divide_double :: "double \<Rightarrow> double \<Rightarrow> double" where
  "divide_double NaN _ = NaN"
| "divide_double _ NaN = NaN"
| "divide_double (Finite a) (Finite b) =
     (if b = 0 then (if a = 0 then NaN else if 0 < a then PInf else MInf)
      else Finite (a / b))"
| "divide_double (Finite a) _ = Finite 0"
| "divide_double PInf (Finite b) = (if 0 \<le> b then PInf else MInf)"
| "divide_double MInf (Finite b) = (if 0 \<le> b then MInf else PInf)"
| "divide_double _ _ = NaN"

definition inverse_double :: "double \<Rightarrow> double" where
  "inverse_double a = divide (Finite 1) a"

text \<open>
  \<open>abs\<close> on a \<open>double\<close>, as \<open>optimize\<close> calls it. The call is unqualified and the
  file includes neither \<open><cmath>\<close> nor \<open><cstdlib>\<close>, so the declaration in scope is
  \<open>int abs(int)\<close> of the C library: the argument is converted to \<open>int\<close>, and the
  \<open>int\<close> that comes back is converted to \<open>double\<close> for the comparison with \<open>eps\<close>.
\<close>

definition abs_double :: "double \<Rightarrow> double" where
  "abs_double x = Finite (real_of_int (abs_int (int_of_double x)))"

fun less_eq_double :: "double \<Rightarrow> double \<Rightarrow> bool" where
  "less_eq_double NaN _ = False"
| "less_eq_double _ NaN = False"
| "less_eq_double (Finite a) (Finite b) = (a \<le> b)"
| "less_eq_double MInf _ = True"
| "less_eq_double _ PInf = True"
| "less_eq_double _ _ = False"

fun less_double :: "double \<Rightarrow> double \<Rightarrow> bool" where
  "less_double NaN _ = False"
| "less_double _ NaN = False"
| "less_double (Finite a) (Finite b) = (a < b)"
| "less_double PInf _ = False"
| "less_double _ MInf = False"
| "less_double _ _ = True"

instance ..

end

text \<open>The conversion of a \<open>size_t\<close> to \<open>double\<close>.\<close>

definition double_of_size :: "64 word \<Rightarrow> double" where
  "double_of_size n = Finite (real (unat n))"

subsection \<open>The hypothesis function and the cost function\<close>

definition f :: "'a::{plus,times} \<Rightarrow> 'a \<Rightarrow> 'a \<Rightarrow> 'a" where
  "f theta_0 theta_1 x = theta_0 + theta_1 * x"

definition cost :: "'a::{plus,minus,times} \<Rightarrow> 'a \<Rightarrow> 'a \<Rightarrow> 'a \<Rightarrow> 'a" where
  "cost theta_0 theta_1 x y = (let f_x = f theta_0 theta_1 x in (f_x - y) * (f_x - y))"

subsection \<open>The data set\<close>

text \<open>
  \<open>struct Dataset\<close>: the vectors \<open>x\<close> and \<open>y\<close>, the member \<open>size\<close> (a \<open>size_t\<close>,
  64 bits) and \<open>learning_rate\<close>. The members are public and \<open>size\<close> is stored apart
  from the vectors, so a value of the type need not have \<open>size\<close> elements.
\<close>

record 'a Dataset =
  dt_x :: "'a list"
  dt_y :: "'a list"
  dt_size :: "64 word"
  learning_rate :: 'a

subsection \<open>One minimization step\<close>

text \<open>
  \<open>clad_grad.execute(theta_0, theta_1, x, y, &J_theta[0], ..., &J_theta[3])\<close>: the
  four inputs by value and the four cells of \<open>J_theta\<close> by address; the model passes
  the contents of \<open>J_theta\<close> in and receives them back.
\<close>

type_synonym 'a J_theta = "'a \<times> 'a \<times> 'a \<times> 'a"
type_synonym 'a gradient = "'a \<Rightarrow> 'a \<Rightarrow> 'a \<Rightarrow> 'a \<Rightarrow> 'a J_theta \<Rightarrow> 'a J_theta"

text \<open>
  The loop of \<open>performStep\<close>, from index \<open>i\<close> with the accumulator \<open>result\<close>:
  \<^verbatim>\<open>
  for (size_t i = 0; i < dt.size; i++) {
    J_theta[0] = J_theta[1] = J_theta[2] = J_theta[3] = 0;
    clad_grad.execute(theta_0, theta_1, dt.x[i], dt.y[i], &J_theta[0], ...);
    result[0] += J_theta[0];
    result[1] += J_theta[1];
  }
  \<close>
\<close>

lemma unat_succ_lt:
  fixes i n :: "64 word"
  assumes "i < n"
  shows "unat (i + 1) = Suc (unat i)"
proof -
  from assms have "unat i < unat n"
    by (simp add: word_less_nat_alt)
  moreover have "unat n < 2 ^ 64"
    using unsigned_less [of n] by simp
  ultimately have "unat i + 1 < 2 ^ 64"
    by simp
  then show ?thesis
    by (simp add: unat_word_ariths)
qed

function accumulate ::
  "'a::{zero,plus} gradient \<Rightarrow> 'a \<Rightarrow> 'a \<Rightarrow> 'a Dataset \<Rightarrow> 64 word \<Rightarrow> 'a \<times> 'a \<Rightarrow> error + 'a \<times> 'a"
where
  "accumulate clad_grad theta_0 theta_1 dt i result =
     (if i < dt_size dt then
        (if unat i < length (dt_x dt) \<and> unat i < length (dt_y dt) then
           (case clad_grad theta_0 theta_1 (dt_x dt ! unat i) (dt_y dt ! unat i) (0, 0, 0, 0) of
              (j0, j1, j2, j3) \<Rightarrow>
                accumulate clad_grad theta_0 theta_1 dt (i + 1) (fst result + j0, snd result + j1))
         else Inl OutOfRange)
      else Inr result)"
  by pat_completeness auto
termination
proof (relation "measure (\<lambda>(g, t0, t1, dt, i, r). unat (dt_size dt) - unat i)", goal_cases)
  case 1
  show ?case by simp
next
  case (2 clad_grad theta_0 theta_1 dt i result)
  then have "unat (i + 1) = Suc (unat i)" and "unat i < unat (dt_size dt)"
    by (simp_all add: unat_succ_lt word_less_nat_alt)
  then show ?case by simp
qed

declare accumulate.simps [simp del]

text \<open>
  \<open>performStep\<close>: the loop from \<open>result = {0, 0}\<close>, then
  \<^verbatim>\<open>
  theta_0 -= dt.learning_rate * result[0] / (2 * dt.size);
  theta_1 -= dt.learning_rate * result[1] / (2 * dt.size);
  \<close>
  \<open>2 * dt.size\<close> is a product of \<open>size_t\<close>, converted to \<open>double\<close> for the division.
  The two references are the pair going in and the pair coming out.
\<close>

definition performStep ::
  "(64 word \<Rightarrow> 'a) \<Rightarrow> 'a::{zero,plus,minus,times,inverse} \<times> 'a \<Rightarrow> 'a Dataset \<Rightarrow> 'a gradient
     \<Rightarrow> error + 'a \<times> 'a"
where
  "performStep of_size th dt clad_grad =
     (case th of (theta_0, theta_1) \<Rightarrow>
        (case accumulate clad_grad theta_0 theta_1 dt 0 (0, 0) of
           Inl e \<Rightarrow> Inl e
         | Inr result \<Rightarrow>
             Inr (theta_0 - learning_rate dt * fst result / of_size (2 * dt_size dt),
                  theta_1 - learning_rate dt * snd result / of_size (2 * dt_size dt))))"

subsection \<open>The optimization loop\<close>

text \<open>
  The local variables of \<open>optimize\<close> that the loop reads and writes. \<open>currentStep\<close> is
  an \<open>int\<close>: its 32 bits are kept as a word, read as two's complement.
\<close>

record 'a optimize_state =
  theta :: "'a list"
  diff :: "'a list"
  hasConverged :: bool
  currentStep :: "32 word"

text \<open>
  \<open>performStep(theta[0], theta[1], dt, clad_grad)\<close>: the call binds the two references
  to the first two elements of the vector \<open>theta\<close>, and the step writes through them.
\<close>

definition performStep_at ::
  "(64 word \<Rightarrow> 'a) \<Rightarrow> 'a::{zero,plus,minus,times,inverse} list \<Rightarrow> 'a Dataset \<Rightarrow> 'a gradient
     \<Rightarrow> error + 'a list"
where
  "performStep_at of_size th dt clad_grad =
     (if length th < 2 then Inl OutOfRange
      else
        (case performStep of_size (th ! 0, th ! 1) dt clad_grad of
           Inl e \<Rightarrow> Inl e
         | Inr (theta_0, theta_1) \<Rightarrow> Inr (th[0 := theta_0, 1 := theta_1])))"

text \<open>
  The convergence test of the loop body, on the snapshot \<open>diff\<close> and the vector after
  the step:
  \<^verbatim>\<open>
  hasConverged = abs(diff[0] - theta[0]) <= eps &&
                 abs(diff[1] - theta[1]) <= eps;
  \<close>
  \<open>&&\<close> reads \<open>diff[1]\<close> only when the first comparison holds. \<open>th\<close> has two
  elements where the test is reached. \<open>abs\<close> is the operator \<open>abs\<close> of the number
  type, which on \<open>double\<close> is the function \<open>abs\<close> of integers, as described there.
\<close>

definition converged :: "'a::{minus,abs,ord} list \<Rightarrow> 'a list \<Rightarrow> 'a \<Rightarrow> error + bool" where
  "converged d th eps =
     (if length d < 1 then Inl OutOfRange
      else if abs (d ! 0 - th ! 0) \<le> eps then
        (if length d < 2 then Inl OutOfRange else Inr (abs (d ! 1 - th ! 1) \<le> eps))
      else Inr False)"

text \<open>
  The body of the \<open>do\<close> loop: the step, the test, then \<open>diff = theta\<close>. The line
  printed to \<open>std::cout\<close> is left out.
\<close>

definition iteration ::
  "(64 word \<Rightarrow> 'a) \<Rightarrow> 'a::{zero,plus,minus,times,inverse,abs,ord} Dataset \<Rightarrow> 'a gradient \<Rightarrow> 'a
     \<Rightarrow> 'a optimize_state \<Rightarrow> error + 'a optimize_state"
where
  "iteration of_size dt clad_grad eps s =
     (case performStep_at of_size (theta s) dt clad_grad of
        Inl e \<Rightarrow> Inl e
      | Inr th \<Rightarrow>
          (case converged (diff s) th eps of
             Inl e \<Rightarrow> Inl e
           | Inr c \<Rightarrow> Inr (s\<lparr>theta := th, hasConverged := c, diff := th\<rparr>)))"

lemma iteration_currentStep:
  "iteration of_size dt clad_grad eps s = Inr s' \<Longrightarrow> currentStep s' = currentStep s"
  by (auto simp: iteration_def split: sum.splits)

lemma unat_diff_succ_less:
  fixes c m :: "32 word"
  assumes "c \<noteq> m"
  shows "unat (m - (c + 1)) < unat (m - c)"
proof -
  have "m - c \<noteq> 0"
    using assms by simp
  then have less: "unat (m - c - 1) < unat (m - c)"
    by (simp add: unat_minus_one unat_gt_0)
  have eq: "m - (c + 1) = m - c - 1"
    by simp
  show ?thesis
    unfolding eq by (rule less)
qed

text \<open>
  The loop, entered at its body:
  \<^verbatim>\<open>
  do { ... } while (currentStep++ < maxSteps && !hasConverged);
  \<close>
  \<open>currentStep++\<close> is evaluated first, whatever \<open>hasConverged\<close> holds; it has no defined
  result when \<open>currentStep\<close> is \<open>INT_MAX\<close>. The comparison is between an \<open>int\<close> and an
  \<open>unsigned int\<close>, so it compares the 32 bits as unsigned numbers.
\<close>

function optimize_loop ::
  "(64 word \<Rightarrow> 'a) \<Rightarrow> 'a::{zero,plus,minus,times,inverse,abs,ord} Dataset \<Rightarrow> 'a gradient
     \<Rightarrow> 32 word \<Rightarrow> 'a \<Rightarrow> 'a optimize_state \<Rightarrow> error + 'a optimize_state"
where
  "optimize_loop of_size dt clad_grad maxSteps eps s =
     (case iteration of_size dt clad_grad eps s of
        Inl e \<Rightarrow> Inl e
      | Inr s' \<Rightarrow>
          if currentStep s' = 2147483647 then Inl SignedOverflow
          else if currentStep s' < maxSteps \<and> \<not> hasConverged s' then
            optimize_loop of_size dt clad_grad maxSteps eps (s'\<lparr>currentStep := currentStep s' + 1\<rparr>)
          else Inr (s'\<lparr>currentStep := currentStep s' + 1\<rparr>))"
  by pat_completeness auto
termination
proof (relation "measure (\<lambda>(c, dt, g, m, e, s). unat (2147483647 - currentStep s))", goal_cases)
  case 1
  show ?case by simp
next
  case (2 of_size dt clad_grad maxSteps eps s s')
  then have "currentStep s' = currentStep s" and "currentStep s' \<noteq> 2147483647"
    by (simp_all add: iteration_currentStep)
  then show ?case
    using unat_diff_succ_less [of "currentStep s'" 2147483647] by simp
qed

declare optimize_loop.simps [simp del]

text \<open>
  \<open>optimize\<close>: \<open>diff = theta\<close>, \<open>hasConverged = false\<close>, \<open>currentStep = 0\<close>, the loop,
  \<open>return theta\<close>. The gradient object, which the source obtains from
  \<open>clad::gradient(cost)\<close>, is a parameter.
\<close>

definition initial_state :: "'a list \<Rightarrow> 'a optimize_state" where
  "initial_state init = \<lparr>theta = init, diff = init, hasConverged = False, currentStep = 0\<rparr>"

definition optimize ::
  "(64 word \<Rightarrow> 'a) \<Rightarrow> 'a::{zero,plus,minus,times,inverse,abs,ord} list \<Rightarrow> 'a Dataset \<Rightarrow> 'a gradient
     \<Rightarrow> 32 word \<Rightarrow> 'a \<Rightarrow> error + 'a list"
where
  "optimize of_size init dt clad_grad maxSteps eps =
     (case optimize_loop of_size dt clad_grad maxSteps eps (initial_state init) of
        Inl e \<Rightarrow> Inl e
      | Inr s \<Rightarrow> Inr (theta s))"

subsection \<open>The constructor of the data set\<close>

text \<open>
  \<open>Dataset()\<close> draws from \<open>std::rand()\<close>, the random number generator of the C
  library. The generator is the parameter \<open>rnd\<close>: \<open>rnd k\<close> is the value of the
  \<open>k\<close>-th call, a number from 0 to \<open>RAND_MAX\<close>. \<open>k\<close> counts the calls made so far.
  The body of the loop:
  \<^verbatim>\<open>
  rand_x = 3 * (float)(std::rand() % 100) / 100;
  t0 = 9 + (float)(std::rand() % 100) / 100;
  t1 = 2;
  rand_y = f(t0, t1, rand_x);
  x.push_back(rand_x);
  y.push_back(rand_y);
  \<close>
  The arithmetic on \<open>float\<close> is that of \<open>double\<close> here, and the file written for
  plotting is left out.
\<close>

function Dataset_loop ::
  "(nat \<Rightarrow> nat) \<Rightarrow> 64 word \<Rightarrow> 64 word \<Rightarrow> nat \<Rightarrow> double list \<times> double list
     \<Rightarrow> double list \<times> double list"
where
  "Dataset_loop rnd sz i k xy =
     (if i < sz then
        (let rand_x = Finite 3 * Finite (real (rnd k mod 100)) / Finite 100;
             t0 = Finite 9 + Finite (real (rnd (k + 1) mod 100)) / Finite 100;
             t1 = Finite 2;
             rand_y = f t0 t1 rand_x
         in Dataset_loop rnd sz (i + 1) (k + 2) (fst xy @ [rand_x], snd xy @ [rand_y]))
      else xy)"
  by pat_completeness auto
termination
proof (relation "measure (\<lambda>(rnd, sz, i, k, xy). unat sz - unat i)", goal_cases)
  case 1
  show ?case by simp
next
  case (2 rnd sz i k xy)
  then have "unat (i + 1) = Suc (unat i)" and "unat i < unat sz"
    by (simp_all add: unat_succ_lt word_less_nat_alt)
  then show ?case by simp
qed

declare Dataset_loop.simps [simp del]

text \<open>
  The constructor with the member \<open>size\<close> holding \<open>sz\<close>, and \<open>Dataset()\<close> itself,
  where the member has its default, \<open>size_t size = 1000\<close>. \<open>learning_rate\<close> is
  \<open>1e-2\<close>.
\<close>

definition Dataset_init :: "(nat \<Rightarrow> nat) \<Rightarrow> 64 word \<Rightarrow> double Dataset" where
  "Dataset_init rnd sz =
     (case Dataset_loop rnd sz 0 0 ([], []) of
        (xs, ys) \<Rightarrow> \<lparr>dt_x = xs, dt_y = ys, dt_size = sz, learning_rate = Finite (1 / 100)\<rparr>)"

definition Dataset_ctor :: "(nat \<Rightarrow> nat) \<Rightarrow> double Dataset" where
  "Dataset_ctor rnd = Dataset_init rnd 1000"

section \<open>Reference definitions and examples\<close>

text \<open>
  What one sample adds to the accumulator of a step: the gradient object is called at
  the current parameters and the sample, with \<open>J_theta\<close> cleared, and its first two
  derivatives are added.
\<close>

definition add_sample ::
  "'a::{zero,plus} gradient \<Rightarrow> 'a \<Rightarrow> 'a \<Rightarrow> 'a \<times> 'a \<Rightarrow> 'a \<times> 'a \<Rightarrow> 'a \<times> 'a"
where
  "add_sample clad_grad theta_0 theta_1 acc sample =
     (case clad_grad theta_0 theta_1 (fst sample) (snd sample) (0, 0, 0, 0) of
        (d0, d1, d2, d3) \<Rightarrow> (fst acc + d0, snd acc + d1))"

text \<open>
  A gradient object for the examples: the four partial derivatives of \<open>cost\<close> in
  closed form, each added to its cell, as the code generated by Clad does.
\<close>

definition closed_form_grad :: "double gradient" where
  "closed_form_grad theta_0 theta_1 x y J =
     (case J of (j0, j1, j2, j3) \<Rightarrow>
        (let r = f theta_0 theta_1 x - y
         in (j0 + Finite 2 * r, j1 + Finite 2 * r * x, j2 + Finite 2 * r * theta_1,
             j3 - Finite 2 * r)))"

definition two_samples :: "double Dataset" where
  "two_samples = \<lparr>dt_x = [Finite 1, Finite 2], dt_y = [Finite 3, Finite 5], dt_size = 2,
     learning_rate = Finite (1 / 10)\<rparr>"

text \<open>
  \<open>k\<close> minimization steps in a row on the vector of parameters, each as the loop of
  \<open>optimize\<close> calls it.
\<close>

primrec run_steps ::
  "(64 word \<Rightarrow> 'a) \<Rightarrow> 'a::{zero,plus,minus,times,inverse} Dataset \<Rightarrow> 'a gradient \<Rightarrow> nat \<Rightarrow> 'a list
     \<Rightarrow> error + 'a list"
where
  "run_steps of_size dt clad_grad 0 th = Inr th"
| "run_steps of_size dt clad_grad (Suc k) th =
     (case performStep_at of_size th dt clad_grad of
        Inl e \<Rightarrow> Inl e
      | Inr th' \<Rightarrow> run_steps of_size dt clad_grad k th')"

text \<open>
  More examples: a gradient object that differs from \<open>closed_form_grad\<close> in the last
  two derivatives only, and a data set of one sample with learning rate 0.
\<close>

definition without_dx_dy :: "double gradient \<Rightarrow> double gradient" where
  "without_dx_dy g theta_0 theta_1 x y J =
     (case g theta_0 theta_1 x y J of (d0, d1, d2, d3) \<Rightarrow> (d0, d1, NaN, NaN))"

definition zero_rate :: "double Dataset" where
  "zero_rate = \<lparr>dt_x = [Finite 1], dt_y = [Finite 3], dt_size = 1, learning_rate = Finite 0\<rparr>"

text \<open>The real number that a finite \<open>double\<close> stands for.\<close>

fun real_of :: "double \<Rightarrow> real" where
  "real_of (Finite r) = r"
| "real_of _ = 0"

text \<open>
  A data set with \<open>size = 0\<close>, and a sequence of values for \<open>std::rand()\<close>.
\<close>

definition no_samples :: "double Dataset" where
  "no_samples = \<lparr>dt_x = [], dt_y = [], dt_size = 0, learning_rate = Finite (1 / 100)\<rparr>"

definition rnd_example :: "nat \<Rightarrow> nat" where
  "rnd_example k = 7 * k + 250"

section \<open>Lemmas\<close>

subsection \<open>The accumulation loop as a fold over the samples\<close>

lemma accumulate_foldl:
  assumes "length (dt_x dt) = unat (dt_size dt)" and "length (dt_y dt) = unat (dt_size dt)"
    and "i \<le> dt_size dt"
  shows "accumulate clad_grad theta_0 theta_1 dt i result =
    Inr (foldl (add_sample clad_grad theta_0 theta_1) result (drop (unat i) (zip (dt_x dt) (dt_y dt))))"
  using assms
proof (induction clad_grad theta_0 theta_1 dt i result rule: accumulate.induct)
  case (1 clad_grad theta_0 theta_1 dt i result)
  let ?zs = "zip (dt_x dt) (dt_y dt)"
  show ?case
  proof (cases "i < dt_size dt")
    case True
    then have lt: "unat i < unat (dt_size dt)" and suc: "unat (i + 1) = Suc (unat i)"
      by (simp_all add: unat_succ_lt word_less_nat_alt)
    from True have le: "i + 1 \<le> dt_size dt"
      by (simp add: inc_le)
    obtain j0 j1 j2 j3 where
      g: "clad_grad theta_0 theta_1 (dt_x dt ! unat i) (dt_y dt ! unat i) (0, 0, 0, 0) = (j0, j1, j2, j3)"
      by (metis prod_cases4)
    from lt "1.prems" have len: "unat i < length ?zs"
      by simp
    then have "drop (unat i) ?zs = (dt_x dt ! unat i, dt_y dt ! unat i) # drop (Suc (unat i)) ?zs"
      by (simp add: Cons_nth_drop_Suc [symmetric])
    moreover have "accumulate clad_grad theta_0 theta_1 dt (i + 1) (fst result + j0, snd result + j1) =
        Inr (foldl (add_sample clad_grad theta_0 theta_1) (fst result + j0, snd result + j1)
          (drop (unat (i + 1)) ?zs))"
      using "1.IH" [of j0 "(j1, j2, j3)" j1 "(j2, j3)" j2 j3] True lt "1.prems" le g by simp
    ultimately show ?thesis
      using True lt "1.prems" g suc
      by (subst accumulate.simps) (simp add: add_sample_def)
  next
    case False
    with "1.prems" have "i = dt_size dt"
      by simp
    with "1.prems" show ?thesis
      by (subst accumulate.simps) simp
  qed
qed

lemma unat_double_size:
  fixes n :: "64 word"
  assumes "unat n < 2 ^ 63"
  shows "unat (2 * n) = 2 * unat n"
proof -
  have "unat (2 :: 64 word) * unat n < 2 ^ LENGTH(64)"
    using assms by simp
  then have "unat (2 * n) = unat (2 :: 64 word) * unat n"
    by (simp only: unat_mult_lem)
  then show ?thesis
    by simp
qed

subsection \<open>The gradient object is read in its first two cells only\<close>

lemma accumulate_first_two:
  assumes "\<forall>t0 t1 x y. fst (g t0 t1 x y (0, 0, 0, 0)) = fst (g' t0 t1 x y (0, 0, 0, 0))
      \<and> fst (snd (g t0 t1 x y (0, 0, 0, 0))) = fst (snd (g' t0 t1 x y (0, 0, 0, 0)))"
  shows "accumulate g theta_0 theta_1 dt i result = accumulate g' theta_0 theta_1 dt i result"
  using assms
proof (induction g theta_0 theta_1 dt i result rule: accumulate.induct)
  case (1 g theta_0 theta_1 dt i result)
  let ?x = "dt_x dt ! unat i" and ?y = "dt_y dt ! unat i"
  obtain j0 j1 j2 j3 where g: "g theta_0 theta_1 ?x ?y (0, 0, 0, 0) = (j0, j1, j2, j3)"
    by (metis prod_cases4)
  obtain k0 k1 k2 k3 where g': "g' theta_0 theta_1 ?x ?y (0, 0, 0, 0) = (k0, k1, k2, k3)"
    by (metis prod_cases4)
  from "1.prems" g g' have same: "j0 = k0" "j1 = k1"
    by (metis fst_conv, metis fst_conv snd_conv)
  show ?case
  proof (cases "i < dt_size dt \<and> unat i < length (dt_x dt) \<and> unat i < length (dt_y dt)")
    case True
    then have "accumulate g theta_0 theta_1 dt (i + 1) (fst result + j0, snd result + j1) =
        accumulate g' theta_0 theta_1 dt (i + 1) (fst result + j0, snd result + j1)"
      using "1.IH" [of j0 "(j1, j2, j3)" j1 "(j2, j3)" j2 j3] "1.prems" g by simp
    with True g g' same show ?thesis
      by (subst accumulate.simps, subst (2) accumulate.simps) simp
  next
    case False
    then show ?thesis
      by (subst accumulate.simps, subst (2) accumulate.simps) auto
  qed
qed

subsection \<open>The loop body and the loop\<close>

lemma performStep_at_length:
  "performStep_at of_size th dt clad_grad = Inr th' \<Longrightarrow> 2 \<le> length th \<and> length th' = length th"
  by (auto simp: performStep_at_def split: if_splits sum.splits prod.splits)

lemma converged_two:
  "2 \<le> length d \<Longrightarrow>
    converged d th eps = Inr (abs (d ! 0 - th ! 0) \<le> eps \<and> abs (d ! 1 - th ! 1) \<le> eps)"
  by (cases d) (auto simp: converged_def)

lemma optimize_loop_steps:
  "optimize_loop of_size dt clad_grad maxSteps eps s = Inr s' \<Longrightarrow>
     \<exists>k\<ge>1. run_steps of_size dt clad_grad k (theta s) = Inr (theta s')"
proof (induction of_size dt clad_grad maxSteps eps s rule: optimize_loop.induct)
  case (1 of_size dt clad_grad maxSteps eps s)
  from "1.prems" obtain s1 where it: "iteration of_size dt clad_grad eps s = Inr s1"
    by (subst (asm) optimize_loop.simps) (auto split: sum.splits)
  then have step: "performStep_at of_size (theta s) dt clad_grad = Inr (theta s1)"
    by (auto simp: iteration_def split: sum.splits)
  show ?case
  proof (cases "currentStep s1 < maxSteps \<and> \<not> hasConverged s1")
    case True
    with "1.prems" it have ne: "currentStep s1 \<noteq> 2147483647"
      and rec: "optimize_loop of_size dt clad_grad maxSteps eps (s1\<lparr>currentStep := currentStep s1 + 1\<rparr>) = Inr s'"
      by (subst (asm) optimize_loop.simps, simp split: if_splits)+
    from "1.IH" [OF it ne True rec] obtain k
      where "1 \<le> k" and "run_steps of_size dt clad_grad k (theta s1) = Inr (theta s')"
      by auto
    with step have "run_steps of_size dt clad_grad (Suc k) (theta s) = Inr (theta s')"
      by simp
    then show ?thesis
      by (intro exI [of _ "Suc k"]) simp
  next
    case False
    with "1.prems" it have "s' = s1\<lparr>currentStep := currentStep s1 + 1\<rparr>"
      by (subst (asm) optimize_loop.simps) (auto split: if_splits)
    with step have "run_steps of_size dt clad_grad (Suc 0) (theta s) = Inr (theta s')"
      by simp
    then show ?thesis
      by (intro exI [of _ "Suc 0"]) simp
  qed
qed

subsection \<open>Runs on the examples\<close>

lemmas double_arith = zero_double_def minus_double_def double_of_size_def f_def

lemmas double_abs = minus_double_def abs_double_def int_of_double_def abs_int_def ceiling_def

lemma performStep_at_zero_rate:
  "performStep_at double_of_size [Finite 0, Finite 0] zero_rate closed_form_grad = Inr [Finite 0, Finite 0]"
  by (simp add: performStep_at_def performStep_def accumulate.simps zero_rate_def closed_form_grad_def
      double_arith Let_def)

lemma run_converged:
  "optimize_loop double_of_size zero_rate closed_form_grad 1 (Finite 1) (initial_state [Finite 0, Finite 0])
     = Inr \<lparr>theta = [Finite 0, Finite 0], diff = [Finite 0, Finite 0], hasConverged = True, currentStep = 1\<rparr>"
  by (simp add: optimize_loop.simps iteration_def initial_state_def performStep_at_zero_rate
      converged_def double_arith double_abs)

lemma run_exhausted:
  "optimize_loop double_of_size zero_rate closed_form_grad 1 (Finite (- 1)) (initial_state [Finite 0, Finite 0])
     = Inr \<lparr>theta = [Finite 0, Finite 0], diff = [Finite 0, Finite 0], hasConverged = False, currentStep = 2\<rparr>"
  by (simp add: optimize_loop.simps iteration_def initial_state_def performStep_at_zero_rate
      converged_def double_arith double_abs)

subsection \<open>A data set with no samples\<close>

lemma times_zero_div_zero: "a * Finite 0 / Finite 0 = NaN"
  by (cases a) simp_all

lemma minus_NaN: "a - NaN = NaN"
  by (cases a) (simp_all add: minus_double_def)

lemma performStep_no_samples:
  "dt_size dt = 0 \<Longrightarrow> performStep double_of_size (a, b) dt clad_grad = Inr (NaN, NaN)"
  by (simp add: performStep_def accumulate.simps double_of_size_def zero_double_def
      times_zero_div_zero minus_NaN)

lemma iteration_no_samples:
  assumes "dt_size dt = 0" and "2 \<le> length (theta s)" and "2 \<le> length (diff s)"
  shows "\<exists>c. iteration double_of_size dt clad_grad eps s =
    Inr (s\<lparr>theta := (theta s)[0 := NaN, 1 := NaN], hasConverged := c,
            diff := (theta s)[0 := NaN, 1 := NaN]\<rparr>)"
proof -
  from assms(2) have "performStep_at double_of_size (theta s) dt clad_grad = Inr ((theta s)[0 := NaN, 1 := NaN])"
    by (simp add: performStep_at_def performStep_no_samples [OF assms(1)])
  then show ?thesis
    by (auto simp: iteration_def converged_two [OF assms(3)])
qed

lemma list_update_twice:
  "xs[0 := a, Suc 0 := b, 0 := a, Suc 0 := b] = xs[0 := a, Suc 0 := b]"
  by (cases xs, simp, rename_tac x ys, case_tac ys, simp_all)

lemma optimize_loop_no_samples:
  assumes "of_size = double_of_size" and "dt_size dt = 0"
    and "2 \<le> length (theta s)" and "2 \<le> length (diff s)"
    and "currentStep s \<le> maxSteps" and "maxSteps < 2147483647"
  shows "\<exists>s'. optimize_loop of_size dt clad_grad maxSteps eps s = Inr s'
    \<and> theta s' = (theta s)[0 := NaN, 1 := NaN]"
  using assms
proof (induction of_size dt clad_grad maxSteps eps s rule: optimize_loop.induct)
  case (1 of_size dt clad_grad maxSteps eps s)
  let ?th = "(theta s)[0 := NaN, 1 := NaN]"
  from "1.prems" obtain c where
    it: "iteration of_size dt clad_grad eps s = Inr (s\<lparr>theta := ?th, hasConverged := c, diff := ?th\<rparr>)"
    using iteration_no_samples [of dt s clad_grad eps] by auto
  let ?s1 = "s\<lparr>theta := ?th, hasConverged := c, diff := ?th\<rparr>"
  from "1.prems" have ne: "currentStep ?s1 \<noteq> 2147483647"
    by auto
  show ?case
  proof (cases "currentStep s < maxSteps \<and> \<not> c")
    case True
    then have cont: "currentStep ?s1 < maxSteps \<and> \<not> hasConverged ?s1"
      by simp
    from True have "currentStep s + 1 \<le> maxSteps"
      by (simp add: inc_le)
    with "1.IH" [OF it ne cont] "1.prems"
    obtain s' where "optimize_loop of_size dt clad_grad maxSteps eps (?s1\<lparr>currentStep := currentStep ?s1 + 1\<rparr>) = Inr s'"
      and "theta s' = ?th"
      by (auto simp: list_update_twice simp del: list_update.simps)
    with it ne cont show ?thesis
      by (subst optimize_loop.simps) simp
  next
    case False
    with it ne show ?thesis
      by (subst optimize_loop.simps) auto
  qed
qed

subsection \<open>The loop of the constructor\<close>

lemma Dataset_loop_map:
  assumes "i \<le> sz"
  shows "Dataset_loop rnd sz i k xy =
    (fst xy @ map (\<lambda>j. Finite (3 * real (rnd (k + 2 * j) mod 100) / 100)) [0..<unat sz - unat i],
     snd xy @ map (\<lambda>j. Finite (9 + real (rnd (k + 2 * j + 1) mod 100) / 100
                            + 2 * (3 * real (rnd (k + 2 * j) mod 100) / 100))) [0..<unat sz - unat i])"
  using assms
proof (induction rnd sz i k xy rule: Dataset_loop.induct)
  case (1 rnd sz i k xy)
  show ?case
  proof (cases "i < sz")
    case True
    then have lt: "unat i < unat sz" and suc: "unat (i + 1) = Suc (unat i)"
      by (simp_all add: unat_succ_lt word_less_nat_alt)
    from True have le: "i + 1 \<le> sz"
      by (simp add: inc_le)
    from lt suc have len: "unat sz - unat i = Suc (unat sz - unat (i + 1))"
      by simp
    have upt: "[0..<Suc (unat sz - unat (i + 1))] = 0 # map Suc [0..<unat sz - unat (i + 1)]"
      by (simp add: upt_conv_Cons map_Suc_upt del: upt_Suc)
    show ?thesis
      using True "1.IH" [OF True refl refl refl refl le]
      by (subst Dataset_loop.simps) (simp add: len upt f_def Let_def comp_def del: upt_Suc)
  next
    case False
    with "1.prems" have "i = sz"
      by simp
    then show ?thesis
      by (subst Dataset_loop.simps) simp
  qed
qed

section \<open>The claims\<close>

text \<open>
  C1. For a data set whose vectors hold its \<open>N = size\<close> samples, and any current
  parameters, \<open>performStep\<close> adds up, over the samples in order and from \<open>(0, 0)\<close>,
  the first two derivatives that the gradient object returns, and then sets the
  parameters to \<open>theta_0 - learning_rate * accumulator[0] / (2N)\<close> and
  \<open>theta_1 - learning_rate * accumulator[1] / (2N)\<close>. The divisor is the product
  \<open>2 * dt.size\<close> of \<open>size_t\<close>, which is \<open>2N\<close> for every \<open>N\<close> below \<open>2^63\<close>. The
  statement holds for any arithmetic on the numbers.
\<close>

theorem performStep_batch_update:
  assumes "length (dt_x dt) = unat (dt_size dt)" and "length (dt_y dt) = unat (dt_size dt)"
  shows "performStep of_size (theta_0, theta_1) dt clad_grad =
      (let accumulator = foldl (add_sample clad_grad theta_0 theta_1) (0, 0) (zip (dt_x dt) (dt_y dt))
       in Inr (theta_0 - learning_rate dt * fst accumulator / of_size (2 * dt_size dt),
               theta_1 - learning_rate dt * snd accumulator / of_size (2 * dt_size dt)))
    \<and> (unat (dt_size dt) < 2 ^ 63 \<longrightarrow> unat (2 * dt_size dt) = 2 * length (zip (dt_x dt) (dt_y dt)))"
  using assms
  by (simp add: performStep_def accumulate_foldl unat_double_size Let_def)

theorem performStep_batch_update_witness:
  "length (dt_x two_samples) = unat (dt_size two_samples)
   \<and> length (dt_y two_samples) = unat (dt_size two_samples)
   \<and> unat (dt_size two_samples) < 2 ^ 63
   \<and> foldl (add_sample closed_form_grad (Finite 0) (Finite 0)) (0, 0)
        (zip (dt_x two_samples) (dt_y two_samples)) = (Finite (- 16), Finite (- 26))
   \<and> performStep double_of_size (Finite 0, Finite 0) two_samples closed_form_grad
        = Inr (Finite (2 / 5), Finite (13 / 20))
   \<and> unat (2 * dt_size two_samples) = 4"
  using performStep_batch_update [of two_samples double_of_size "Finite 0" "Finite 0" closed_form_grad]
  by (simp add: two_samples_def add_sample_def closed_form_grad_def f_def zero_double_def
      minus_double_def double_of_size_def Let_def)

text \<open>
  C2. For a data set of one sample \<open>(x, y)\<close> and finite parameters, if the gradient
  object returns at that sample the partial derivatives of \<open>cost\<close> in \<open>theta_0\<close> and
  in \<open>theta_1\<close>, then the gradient that \<open>performStep\<close> accumulates is
  \<open>2 * (f(theta_0, theta_1, x) - y)\<close> and \<open>2 * (f(theta_0, theta_1, x) - y) * x\<close>,
  and these are the values that enter the update. The derivatives are those of the real
  function that \<open>cost\<close> is on finite values.
\<close>

theorem accumulated_gradient_one_sample:
  fixes t0 t1 x y d0 d1 :: real
  assumes "dt_x dt = [Finite x]" and "dt_y dt = [Finite y]" and "dt_size dt = 1"
    and "clad_grad (Finite t0) (Finite t1) (Finite x) (Finite y) (0, 0, 0, 0) = (Finite d0, Finite d1, d2, d3)"
    and "((\<lambda>t. real_of (cost (Finite t) (Finite t1) (Finite x) (Finite y))) has_real_derivative d0) (at t0)"
    and "((\<lambda>t. real_of (cost (Finite t0) (Finite t) (Finite x) (Finite y))) has_real_derivative d1) (at t1)"
  shows "accumulate clad_grad (Finite t0) (Finite t1) dt 0 (0, 0) =
      Inr (Finite 2 * (f (Finite t0) (Finite t1) (Finite x) - Finite y),
           Finite 2 * (f (Finite t0) (Finite t1) (Finite x) - Finite y) * Finite x)
    \<and> performStep of_size (Finite t0, Finite t1) dt clad_grad =
      Inr (Finite t0 - learning_rate dt * (Finite 2 * (f (Finite t0) (Finite t1) (Finite x) - Finite y))
             / of_size 2,
           Finite t1 - learning_rate dt * (Finite 2 * (f (Finite t0) (Finite t1) (Finite x) - Finite y) * Finite x)
             / of_size 2)"
proof -
  have "((\<lambda>t. (t + t1 * x - y) * (t + t1 * x - y)) has_real_derivative 2 * (t0 + t1 * x - y)) (at t0)"
    by (auto intro!: derivative_eq_intros)
  moreover have "(\<lambda>t. real_of (cost (Finite t) (Finite t1) (Finite x) (Finite y)))
      = (\<lambda>t. (t + t1 * x - y) * (t + t1 * x - y))"
    by (simp add: cost_def f_def minus_double_def Let_def)
  ultimately have d0: "d0 = 2 * (t0 + t1 * x - y)"
    using assms(5) by (simp add: DERIV_unique)
  have "((\<lambda>t. (t0 + t * x - y) * (t0 + t * x - y)) has_real_derivative 2 * (t0 + t1 * x - y) * x) (at t1)"
    by (auto intro!: derivative_eq_intros simp: algebra_simps)
  moreover have "(\<lambda>t. real_of (cost (Finite t0) (Finite t) (Finite x) (Finite y)))
      = (\<lambda>t. (t0 + t * x - y) * (t0 + t * x - y))"
    by (simp add: cost_def f_def minus_double_def Let_def)
  ultimately have d1: "d1 = 2 * (t0 + t1 * x - y) * x"
    using assms(6) by (simp add: DERIV_unique)
  from assms(1-4) have "accumulate clad_grad (Finite t0) (Finite t1) dt 0 (0, 0) = Inr (Finite d0, Finite d1)"
    by (simp add: accumulate.simps zero_double_def)
  with d0 d1 have acc: "accumulate clad_grad (Finite t0) (Finite t1) dt 0 (0, 0) =
      Inr (Finite 2 * (f (Finite t0) (Finite t1) (Finite x) - Finite y),
           Finite 2 * (f (Finite t0) (Finite t1) (Finite x) - Finite y) * Finite x)"
    by (simp add: f_def minus_double_def)
  with assms(3) show ?thesis
    by (simp add: performStep_def)
qed

theorem accumulated_gradient_one_sample_witness:
  "accumulate closed_form_grad (Finite 0) (Finite 0) zero_rate 0 (0, 0) = Inr (Finite (- 6), Finite (- 6))"
proof -
  have g: "closed_form_grad (Finite 0) (Finite 0) (Finite 1) (Finite 3) (0, 0, 0, 0)
      = (Finite (- 6), Finite (- 6), Finite 0, Finite 6)"
    by (simp add: closed_form_grad_def double_arith Let_def)
  have "((\<lambda>t. (t - 3) * (t - 3)) has_real_derivative - 6) (at 0)"
    by (auto intro!: derivative_eq_intros)
  then have d0: "((\<lambda>t. real_of (cost (Finite t) (Finite 0) (Finite 1) (Finite 3))) has_real_derivative - 6) (at 0)"
    by (simp add: cost_def f_def minus_double_def Let_def)
  have "((\<lambda>t. (t - 3) * (t - 3)) has_real_derivative - 6) (at 0)"
    by (auto intro!: derivative_eq_intros)
  then have d1: "((\<lambda>t. real_of (cost (Finite 0) (Finite t) (Finite 1) (Finite 3))) has_real_derivative - 6) (at 0)"
    by (simp add: cost_def f_def minus_double_def Let_def)
  show ?thesis
    using accumulated_gradient_one_sample [where dt = zero_rate and x = 1 and y = 3
        and clad_grad = closed_form_grad and ?t0.0 = 0 and ?t1.0 = 0 and ?d0.0 = "- 6" and ?d1.0 = "- 6"
        and ?d2.0 = "Finite 0" and ?d3.0 = "Finite 6" and of_size = double_of_size, OF _ _ _ g d0 d1]
    by (simp add: zero_rate_def f_def minus_double_def)
qed

text \<open>
  C3. The claim is what the test is written for, and the code misses it: \<open>abs\<close> is
  called on the difference of two \<open>double\<close> values, but the function that is called
  truncates its argument to an \<open>int\<close>, so every difference below 1 in size counts as 0.
  With the snapshot \<open>(1.0, 2.0)\<close>, the current vector \<open>(1.0 + 5e-7, 2.0 - 5e-7)\<close>
  and \<open>eps = 1e-7\<close> the test yields true, where the absolute differences, \<open>5e-7\<close>,
  are above \<open>eps\<close>. In the same way the loop of \<open>optimize\<close>, run on two samples from
  \<open>(0, 0)\<close> with \<open>eps = 1e-6\<close>, stops after its first step, which moved the
  parameters by \<open>0.4\<close> and \<open>0.65\<close>.
\<close>

theorem convergence_check_truncates:
  "converged [Finite 1, Finite 2] [Finite (1 + 5 / 10 ^ 7), Finite (2 - 5 / 10 ^ 7)] (Finite (1 / 10 ^ 7))
      = Inr True
   \<and> optimize_loop double_of_size two_samples closed_form_grad 10000 (Finite (1 / 10 ^ 6))
        (initial_state [Finite 0, Finite 0])
      = Inr \<lparr>theta = [Finite (2 / 5), Finite (13 / 20)], diff = [Finite (2 / 5), Finite (13 / 20)],
             hasConverged = True, currentStep = 1\<rparr>"
proof -
  have step: "performStep_at double_of_size [Finite 0, Finite 0] two_samples closed_form_grad
     = Inr [Finite (2 / 5), Finite (13 / 20)]"
    by (simp add: performStep_at_def performStep_def accumulate.simps two_samples_def
        closed_form_grad_def double_arith Let_def)
  have "converged [Finite 1, Finite 2] [Finite (1 + 5 / 10 ^ 7), Finite (2 - 5 / 10 ^ 7)]
      (Finite (1 / 10 ^ 7)) = Inr True"
    by (simp add: converged_def double_abs)
  moreover have "optimize_loop double_of_size two_samples closed_form_grad 10000 (Finite (1 / 10 ^ 6))
        (initial_state [Finite 0, Finite 0])
      = Inr \<lparr>theta = [Finite (2 / 5), Finite (13 / 20)], diff = [Finite (2 / 5), Finite (13 / 20)],
             hasConverged = True, currentStep = 1\<rparr>"
    by (simp add: optimize_loop.simps iteration_def initial_state_def step converged_def double_abs)
  ultimately show ?thesis
    by simp
qed

text \<open>
  C4, as the claim states it, fails: with learning rate 0 and \<open>eps = 1\<close>, a positive
  tolerance, and \<open>maxSteps = 3\<close>, the loop ends after its first iteration with
  \<open>hasConverged\<close> set.
\<close>

theorem zero_rate_positive_eps_counterexample:
  "learning_rate zero_rate = Finite 0
   \<and> optimize_loop double_of_size zero_rate closed_form_grad 3 (Finite 1) (initial_state [Finite 0, Finite 0])
     = Inr \<lparr>theta = [Finite 0, Finite 0], diff = [Finite 0, Finite 0], hasConverged = True, currentStep = 1\<rparr>"
  by (simp add: optimize_loop.simps iteration_def initial_state_def performStep_at_zero_rate
      converged_def double_arith double_abs zero_rate_def [THEN arg_cong, of learning_rate])

text \<open>
  C4, amended. With learning rate 0, a data set of \<open>N \<ge> 1\<close> samples, finite
  parameters and a finite accumulated gradient, a step leaves the parameters as they
  are, and for every \<open>eps \<ge> 0\<close>, positive or zero, the loop ends after its first
  iteration with \<open>hasConverged\<close> set: the optimizer converges at iteration 0, whatever
  \<open>maxSteps\<close> is, and returns the initial parameters.
\<close>

theorem zero_rate_converges_at_once:
  fixes e :: real
  assumes "learning_rate dt = Finite 0"
    and "1 \<le> unat (dt_size dt)" and "unat (dt_size dt) < 2 ^ 63"
    and "accumulate clad_grad (Finite a) (Finite b) dt 0 (0, 0) = Inr (Finite s0, Finite s1)"
    and "init = Finite a # Finite b # rest"
    and "0 \<le> e"
  shows "performStep double_of_size (Finite a, Finite b) dt clad_grad = Inr (Finite a, Finite b)
    \<and> optimize_loop double_of_size dt clad_grad maxSteps (Finite e) (initial_state init)
      = Inr \<lparr>theta = init, diff = init, hasConverged = True, currentStep = 1\<rparr>
    \<and> optimize double_of_size init dt clad_grad maxSteps (Finite e) = Inr init"
proof -
  from assms(2,3) have "unat (2 * dt_size dt) \<noteq> 0"
    by (simp add: unat_double_size)
  then have "2 * dt_size dt \<noteq> 0"
    by auto
  with assms(1,4) have step: "performStep double_of_size (Finite a, Finite b) dt clad_grad = Inr (Finite a, Finite b)"
    by (simp add: performStep_def double_of_size_def minus_double_def unsigned_eq_0_iff)
  with assms(5) have "performStep_at double_of_size init dt clad_grad = Inr init"
    by (simp add: performStep_at_def)
  moreover have "converged init init (Finite e) = Inr True"
    using assms(5,6) by (simp add: converged_def double_abs)
  ultimately have "iteration double_of_size dt clad_grad (Finite e) (initial_state init)
      = Inr \<lparr>theta = init, diff = init, hasConverged = True, currentStep = 0\<rparr>"
    by (simp add: iteration_def initial_state_def)
  then have "optimize_loop double_of_size dt clad_grad maxSteps (Finite e) (initial_state init)
      = Inr \<lparr>theta = init, diff = init, hasConverged = True, currentStep = 1\<rparr>"
    by (subst optimize_loop.simps) simp
  with step show ?thesis
    by (simp add: optimize_def)
qed

theorem zero_rate_converges_at_once_witness:
  "accumulate closed_form_grad (Finite 0) (Finite 0) zero_rate 0 (0, 0) = Inr (Finite (- 6), Finite (- 6))
   \<and> optimize_loop double_of_size zero_rate closed_form_grad 7 (Finite 0) (initial_state [Finite 0, Finite 0])
      = Inr \<lparr>theta = [Finite 0, Finite 0], diff = [Finite 0, Finite 0], hasConverged = True, currentStep = 1\<rparr>
   \<and> optimize double_of_size [Finite 0, Finite 0] zero_rate closed_form_grad 7 (Finite (1 / 10 ^ 6))
      = Inr [Finite 0, Finite 0]"
proof -
  have acc: "accumulate closed_form_grad (Finite 0) (Finite 0) zero_rate 0 (0, 0)
      = Inr (Finite (- 6), Finite (- 6))"
    by (simp add: accumulate.simps zero_rate_def closed_form_grad_def double_arith Let_def)
  show ?thesis
    using zero_rate_converges_at_once [where dt = zero_rate and clad_grad = closed_form_grad
        and a = 0 and b = 0 and init = "[Finite 0, Finite 0]" and rest = "[]" and e = 0 and maxSteps = 7
        and ?s0.0 = "- 6" and ?s1.0 = "- 6"]
      zero_rate_converges_at_once [where dt = zero_rate and clad_grad = closed_form_grad
        and a = 0 and b = 0 and init = "[Finite 0, Finite 0]" and rest = "[]" and e = "1 / 10 ^ 6"
        and maxSteps = 7 and ?s0.0 = "- 6" and ?s1.0 = "- 6"]
      acc
    by (simp add: zero_rate_def)
qed

text \<open>
  C5. In the first iteration of the loop the snapshot \<open>diff\<close> is the vector the caller
  passed (\<open>std::vector<double> diff = theta\<close>): where the first step succeeds, the flag
  \<open>hasConverged\<close> it computes compares the caller's vector with the vector after the
  step, and the loop goes on from there. The statement holds for any arithmetic on the
  numbers.
\<close>

theorem first_check_against_initial:
  assumes "performStep_at of_size init dt clad_grad = Inr th"
  shows "diff (initial_state init) = init
    \<and> iteration of_size dt clad_grad eps (initial_state init) =
        Inr \<lparr>theta = th, diff = th,
             hasConverged = (abs (init ! 0 - th ! 0) \<le> eps \<and> abs (init ! 1 - th ! 1) \<le> eps),
             currentStep = 0\<rparr>
    \<and> optimize_loop of_size dt clad_grad maxSteps eps (initial_state init) =
        (let s1 = \<lparr>theta = th, diff = th,
               hasConverged = (abs (init ! 0 - th ! 0) \<le> eps \<and> abs (init ! 1 - th ! 1) \<le> eps),
               currentStep = 1\<rparr>
         in if 0 < maxSteps \<and> \<not> hasConverged s1
            then optimize_loop of_size dt clad_grad maxSteps eps s1 else Inr s1)"
proof -
  have it: "iteration of_size dt clad_grad eps (initial_state init) =
        Inr \<lparr>theta = th, diff = th,
             hasConverged = (abs (init ! 0 - th ! 0) \<le> eps \<and> abs (init ! 1 - th ! 1) \<le> eps),
             currentStep = 0\<rparr>"
    using assms performStep_at_length [OF assms]
    by (simp add: iteration_def initial_state_def converged_two)
  then show ?thesis
    by (subst optimize_loop.simps) (auto simp: initial_state_def Let_def)
qed

theorem first_check_against_initial_witness:
  "performStep_at double_of_size [Finite 0, Finite 0] two_samples closed_form_grad
     = Inr [Finite (2 / 5), Finite (13 / 20)]
   \<and> iteration double_of_size two_samples closed_form_grad (Finite (1 / 2)) (initial_state [Finite 0, Finite 0])
     = Inr \<lparr>theta = [Finite (2 / 5), Finite (13 / 20)], diff = [Finite (2 / 5), Finite (13 / 20)],
            hasConverged = True, currentStep = 0\<rparr>
   \<and> performStep_at double_of_size [Finite 100, Finite 0] two_samples closed_form_grad
     = Inr [Finite (452 / 5), Finite (- (287 / 20))]
   \<and> iteration double_of_size two_samples closed_form_grad (Finite 1) (initial_state [Finite 100, Finite 0])
     = Inr \<lparr>theta = [Finite (452 / 5), Finite (- (287 / 20))],
            diff = [Finite (452 / 5), Finite (- (287 / 20))],
            hasConverged = False, currentStep = 0\<rparr>"
proof -
  have step: "performStep_at double_of_size [Finite 0, Finite 0] two_samples closed_form_grad
     = Inr [Finite (2 / 5), Finite (13 / 20)]"
    by (simp add: performStep_at_def performStep_def accumulate.simps two_samples_def
        closed_form_grad_def double_arith Let_def)
  have step': "performStep_at double_of_size [Finite 100, Finite 0] two_samples closed_form_grad
     = Inr [Finite (452 / 5), Finite (- (287 / 20))]"
    by (simp add: performStep_at_def performStep_def accumulate.simps two_samples_def
        closed_form_grad_def double_arith Let_def)
  show ?thesis
    using first_check_against_initial [OF step, of "Finite (1 / 2)"]
      first_check_against_initial [OF step', of "Finite 1"] step step'
    by (simp add: double_abs)
qed

text \<open>
  C6. A data set built by the constructor with the member \<open>size\<close> holding \<open>N\<close> has
  exactly \<open>N\<close> samples. Each \<open>x\<close> is \<open>3 * (r mod 100) / 100\<close> for a value \<open>r\<close> of
  \<open>std::rand()\<close>, so it lies in \<open>[0, 3)\<close>; each \<open>y\<close> is \<open>f(t0, 2, x) = t0 + 2 * x\<close>
  with \<open>t0 = 9 + o\<close> and \<open>o = (r' mod 100) / 100\<close> in \<open>[0, 1)\<close> for the next value
  \<open>r'\<close>. This holds for every \<open>N\<close>; \<open>Dataset()\<close> itself has \<open>N = 1000\<close>.
\<close>

theorem Dataset_samples:
  "length (dt_x (Dataset_init rnd sz)) = unat sz
   \<and> length (dt_y (Dataset_init rnd sz)) = unat sz
   \<and> dt_size (Dataset_init rnd sz) = sz
   \<and> (\<forall>i<unat sz.
        dt_x (Dataset_init rnd sz) ! i = Finite (3 * real (rnd (2 * i) mod 100) / 100)
        \<and> 0 \<le> 3 * real (rnd (2 * i) mod 100) / 100
        \<and> 3 * real (rnd (2 * i) mod 100) / 100 < 3
        \<and> dt_y (Dataset_init rnd sz) ! i =
            f (Finite 9 + Finite (real (rnd (2 * i + 1) mod 100) / 100)) (Finite 2)
              (dt_x (Dataset_init rnd sz) ! i)
        \<and> 0 \<le> real (rnd (2 * i + 1) mod 100) / 100
        \<and> real (rnd (2 * i + 1) mod 100) / 100 < 1)
   \<and> Dataset_ctor rnd = Dataset_init rnd 1000"
proof -
  have loop: "Dataset_loop rnd sz 0 0 ([], []) =
    (map (\<lambda>j. Finite (3 * real (rnd (2 * j) mod 100) / 100)) [0..<unat sz],
     map (\<lambda>j. Finite (9 + real (rnd (2 * j + 1) mod 100) / 100
                  + 2 * (3 * real (rnd (2 * j) mod 100) / 100))) [0..<unat sz])"
    using Dataset_loop_map [of 0 sz rnd 0 "([], [])"] by simp
  have x_lt: "3 * real (rnd (2 * i) mod 100) / 100 < 3" for i
  proof -
    have "rnd (2 * i) mod 100 < 100"
      by simp
    then have "real (rnd (2 * i) mod 100) < 100"
      by (metis of_nat_less_iff of_nat_numeral)
    then show ?thesis
      by simp
  qed
  have o_lt: "real (rnd (2 * i + 1) mod 100) / 100 < 1" for i
  proof -
    have "rnd (2 * i + 1) mod 100 < 100"
      by simp
    then have "real (rnd (2 * i + 1) mod 100) < 100"
      by (metis of_nat_less_iff of_nat_numeral)
    then show ?thesis
      by simp
  qed
  show ?thesis
    using x_lt o_lt
    by (simp add: Dataset_init_def Dataset_ctor_def loop f_def del: upt_Suc)
qed

theorem Dataset_samples_witness:
  "length (dt_x (Dataset_init rnd_example 2)) = 2
   \<and> dt_x (Dataset_init rnd_example 2) ! 1 = Finite (48 / 25)
   \<and> dt_y (Dataset_init rnd_example 2) ! 1 = Finite (271 / 20)"
proof -
  have "(1::nat) < unat (2 :: 64 word)"
    by simp
  with Dataset_samples [of rnd_example 2]
  have "dt_x (Dataset_init rnd_example 2) ! 1 = Finite (3 * real (rnd_example (2 * 1) mod 100) / 100)
      \<and> dt_y (Dataset_init rnd_example 2) ! 1 =
            f (Finite 9 + Finite (real (rnd_example (2 * 1 + 1) mod 100) / 100)) (Finite 2)
              (dt_x (Dataset_init rnd_example 2) ! 1)"
    by blast
  moreover from Dataset_samples [of rnd_example 2] have "length (dt_x (Dataset_init rnd_example 2)) = 2"
    by simp
  ultimately show ?thesis
    by (simp add: rnd_example_def f_def)
qed

text \<open>
  C7, as the claim states it, fails: on a data set with \<open>size = 0\<close>, \<open>optimize\<close>
  signals no error and returns parameters that the update has changed, to NaN.
\<close>

theorem no_samples_counterexample:
  "dt_size no_samples = 0
   \<and> optimize double_of_size [Finite 0, Finite 0] no_samples closed_form_grad 2 (Finite (1 / 10 ^ 6))
      = Inr [NaN, NaN]"
  by (simp add: optimize_def optimize_loop.simps iteration_def initial_state_def performStep_at_def
      performStep_def accumulate.simps converged_def no_samples_def double_arith double_abs)

text \<open>
  C7, amended. \<open>N = 0\<close> is not rejected: \<open>optimize\<close> has no check of \<open>dt.size\<close> and
  signals no error. With \<open>dt.size = 0\<close> a step skips the accumulation loop and still
  performs the update, with the divisor \<open>2N = 0\<close>, which makes both parameters NaN
  (\<open>0/0\<close>), and \<open>optimize\<close> returns the vector with NaN in its first two places
  (\<open>maxSteps < INT_MAX\<close>).
\<close>

theorem no_samples_not_rejected:
  assumes "dt_size dt = 0" and "2 \<le> length init" and "maxSteps < 2147483647"
  shows "performStep_at double_of_size init dt clad_grad = Inr (init[0 := NaN, 1 := NaN])
    \<and> optimize double_of_size init dt clad_grad maxSteps eps = Inr (init[0 := NaN, 1 := NaN])"
proof -
  from assms obtain s' where
    "optimize_loop double_of_size dt clad_grad maxSteps eps (initial_state init) = Inr s'"
    and "theta s' = init[0 := NaN, 1 := NaN]"
    using optimize_loop_no_samples [of double_of_size dt "initial_state init" maxSteps clad_grad eps]
    by (auto simp: initial_state_def)
  moreover from assms have "performStep_at double_of_size init dt clad_grad = Inr (init[0 := NaN, 1 := NaN])"
    by (simp add: performStep_at_def performStep_no_samples)
  ultimately show ?thesis
    by (simp add: optimize_def)
qed

theorem no_samples_not_rejected_witness:
  "performStep_at double_of_size [Finite 1, Finite 2, Finite 3] no_samples closed_form_grad
      = Inr [NaN, NaN, Finite 3]
   \<and> optimize double_of_size [Finite 1, Finite 2, Finite 3] no_samples closed_form_grad 10000 (Finite (1 / 10 ^ 6))
      = Inr [NaN, NaN, Finite 3]"
  using no_samples_not_rejected [of no_samples "[Finite 1, Finite 2, Finite 3]" 10000 closed_form_grad
      "Finite (1 / 10 ^ 6)"]
  by (simp add: no_samples_def)

text \<open>
  C8. \<open>optimize\<close> returns the final vector of parameters and nothing else: a run that
  leaves the loop with \<open>hasConverged\<close> set and a run that leaves it at the step bound
  with \<open>hasConverged\<close> clear, with the same final parameters, return the same value.
  The statement holds for any arithmetic on the numbers.
\<close>

theorem optimize_returns_theta_only:
  assumes "optimize_loop of_size dt clad_grad maxSteps eps (initial_state init) = Inr s"
    and "optimize_loop of_size' dt' clad_grad' maxSteps' eps' (initial_state init') = Inr s'"
    and "hasConverged s" and "\<not> hasConverged s'" and "theta s = theta s'"
  shows "optimize of_size init dt clad_grad maxSteps eps = Inr (theta s)
    \<and> optimize of_size' init' dt' clad_grad' maxSteps' eps' = optimize of_size init dt clad_grad maxSteps eps"
  using assms by (simp add: optimize_def)

theorem optimize_returns_theta_only_witness:
  "optimize double_of_size [Finite 0, Finite 0] zero_rate closed_form_grad 1 (Finite 1)
     = Inr [Finite 0, Finite 0]
   \<and> optimize double_of_size [Finite 0, Finite 0] zero_rate closed_form_grad 1 (Finite (- 1))
     = Inr [Finite 0, Finite 0]"
  using optimize_returns_theta_only [OF run_converged run_exhausted]
  by simp

text \<open>
  C9. The parameters after a step depend on the first two derivatives only: two
  gradient objects that return the same first two derivatives on every input, whatever
  they return for \<open>d/dx\<close> and \<open>d/dy\<close>, give the same result of \<open>performStep\<close>, on
  every data set and from every pair of parameters. The statement holds for any
  arithmetic on the numbers.
\<close>

theorem performStep_ignores_dx_dy:
  assumes "\<forall>t0 t1 x y J. fst (g t0 t1 x y J) = fst (g' t0 t1 x y J)
      \<and> fst (snd (g t0 t1 x y J)) = fst (snd (g' t0 t1 x y J))"
  shows "performStep of_size th dt g = performStep of_size th dt g'"
proof -
  from assms have "accumulate g (fst th) (snd th) dt 0 (0, 0) = accumulate g' (fst th) (snd th) dt 0 (0, 0)"
    by (intro accumulate_first_two) blast
  then show ?thesis
    by (cases th) (simp add: performStep_def)
qed

theorem performStep_ignores_dx_dy_witness:
  "closed_form_grad (Finite 0) (Finite 0) (Finite 1) (Finite 3) (0, 0, 0, 0)
     \<noteq> without_dx_dy closed_form_grad (Finite 0) (Finite 0) (Finite 1) (Finite 3) (0, 0, 0, 0)
   \<and> performStep double_of_size (Finite 0, Finite 0) two_samples closed_form_grad
     = Inr (Finite (2 / 5), Finite (13 / 20))
   \<and> performStep double_of_size (Finite 0, Finite 0) two_samples (without_dx_dy closed_form_grad)
     = Inr (Finite (2 / 5), Finite (13 / 20))"
proof -
  have agree: "\<forall>t0 t1 x y J. fst (closed_form_grad t0 t1 x y J) = fst (without_dx_dy closed_form_grad t0 t1 x y J)
      \<and> fst (snd (closed_form_grad t0 t1 x y J)) = fst (snd (without_dx_dy closed_form_grad t0 t1 x y J))"
    by (simp add: without_dx_dy_def split: prod.splits)
  have "performStep double_of_size (Finite 0, Finite 0) two_samples closed_form_grad
     = Inr (Finite (2 / 5), Finite (13 / 20))"
    by (simp add: performStep_def accumulate.simps two_samples_def closed_form_grad_def double_arith Let_def)
  moreover have "closed_form_grad (Finite 0) (Finite 0) (Finite 1) (Finite 3) (0, 0, 0, 0)
     \<noteq> without_dx_dy closed_form_grad (Finite 0) (Finite 0) (Finite 1) (Finite 3) (0, 0, 0, 0)"
    by (simp add: without_dx_dy_def closed_form_grad_def double_arith Let_def)
  ultimately show ?thesis
    using performStep_ignores_dx_dy [OF agree, of double_of_size "(Finite 0, Finite 0)" two_samples]
    by simp
qed

text \<open>
  C10. For every \<open>maxSteps\<close>, a vector that \<open>optimize\<close> returns is the result of at
  least one minimization step on the caller's vector, since the loop is a \<open>do\<close> loop,
  and a first step that fails makes \<open>optimize\<close> fail; with \<open>maxSteps = 0\<close> the
  outcome of \<open>optimize\<close> is the outcome of exactly one step. The statement holds for
  any arithmetic on the numbers.
\<close>

theorem optimize_at_least_one_step:
  "(optimize of_size init dt clad_grad maxSteps eps = Inr th \<longrightarrow>
      (\<exists>k\<ge>1. run_steps of_size dt clad_grad k init = Inr th))
   \<and> (performStep_at of_size init dt clad_grad = Inl e \<longrightarrow>
      optimize of_size init dt clad_grad maxSteps eps = Inl e)
   \<and> optimize of_size init dt clad_grad 0 eps = performStep_at of_size init dt clad_grad"
proof (intro conjI)
  show "optimize of_size init dt clad_grad maxSteps eps = Inr th \<longrightarrow>
      (\<exists>k\<ge>1. run_steps of_size dt clad_grad k init = Inr th)"
  proof
    assume "optimize of_size init dt clad_grad maxSteps eps = Inr th"
    then obtain s where "optimize_loop of_size dt clad_grad maxSteps eps (initial_state init) = Inr s"
      and "th = theta s"
      by (auto simp: optimize_def split: sum.splits)
    with optimize_loop_steps [of of_size dt clad_grad maxSteps eps "initial_state init" s]
    show "\<exists>k\<ge>1. run_steps of_size dt clad_grad k init = Inr th"
      by (simp add: initial_state_def)
  qed
next
  show "performStep_at of_size init dt clad_grad = Inl e \<longrightarrow>
      optimize of_size init dt clad_grad maxSteps eps = Inl e"
    by (simp add: optimize_def optimize_loop.simps iteration_def initial_state_def)
next
  show "optimize of_size init dt clad_grad 0 eps = performStep_at of_size init dt clad_grad"
  proof (cases "performStep_at of_size init dt clad_grad")
    case (Inl e)
    then show ?thesis
      by (simp add: optimize_def optimize_loop.simps iteration_def initial_state_def)
  next
    case (Inr th)
    with performStep_at_length [OF Inr] show ?thesis
      by (simp add: optimize_def optimize_loop.simps iteration_def initial_state_def converged_two)
  qed
qed

theorem optimize_at_least_one_step_witness:
  "optimize double_of_size [Finite 0, Finite 0] two_samples closed_form_grad 0 (Finite 1)
     = Inr [Finite (2 / 5), Finite (13 / 20)]
   \<and> (\<exists>k\<ge>1. run_steps double_of_size two_samples closed_form_grad k [Finite 0, Finite 0]
        = Inr [Finite (2 / 5), Finite (13 / 20)])"
proof -
  have step: "performStep_at double_of_size [Finite 0, Finite 0] two_samples closed_form_grad
     = Inr [Finite (2 / 5), Finite (13 / 20)]"
    by (simp add: performStep_at_def performStep_def accumulate.simps two_samples_def
        closed_form_grad_def double_arith Let_def)
  from optimize_at_least_one_step [where of_size = double_of_size and init = "[Finite 0, Finite 0]"
      and dt = two_samples and clad_grad = closed_form_grad and maxSteps = 0 and eps = "Finite 1"
      and th = "[Finite (2 / 5), Finite (13 / 20)]"]
  show ?thesis
    by (simp add: step)
qed

end
